theory Spec2Isabelle
  imports Complex_Main
begin

section \<open>Python strings\<close>

text \<open>
  A Python \<open>str\<close> is a sequence of code points. The model uses \<^typ>\<open>string\<close> and reads
  each \<^typ>\<open>char\<close> as one code point in the range U+0000 to U+00FF, so \<^const>\<open>length\<close>
  counts what Python's \<open>len\<close> counts. The character classes below are the ones of
  \<open>str.isspace\<close>, \<open>str.lower\<close> and the regular expression class \<open>\w\<close> on that range.
\<close>

definition code_point :: "char \<Rightarrow> nat" where
  "code_point c = of_char c"

definition is_space :: "char \<Rightarrow> bool" where
  "is_space c = (code_point c \<in> {9, 10, 11, 12, 13, 28, 29, 30, 31, 32, 133, 160})"

definition is_word_char :: "char \<Rightarrow> bool" where
  "is_word_char c =
     (let n = code_point c in
        (48 \<le> n \<and> n \<le> 57) \<or> (65 \<le> n \<and> n \<le> 90) \<or> n = 95 \<or> (97 \<le> n \<and> n \<le> 122)
        \<or> n \<in> {170, 178, 179, 181, 185, 186, 188, 189, 190}
        \<or> (192 \<le> n \<and> n \<noteq> 215 \<and> n \<noteq> 247))"

definition lower_char :: "char \<Rightarrow> char" where
  "lower_char c =
     (let n = code_point c in
        if (65 \<le> n \<and> n \<le> 90) \<or> (192 \<le> n \<and> n \<le> 222 \<and> n \<noteq> 215)
        then char_of (n + 32) else c)"

definition lower :: "string \<Rightarrow> string" where
  "lower s = map lower_char s"

text \<open>\<open>s.split()\<close>: the maximal runs of non-whitespace characters, in order.\<close>

fun split_acc :: "string \<Rightarrow> string \<Rightarrow> string list" where
  "split_acc cur [] = (if cur = [] then [] else [cur])"
| "split_acc cur (c # cs) =
     (if is_space c then (if cur = [] then split_acc [] cs else cur # split_acc [] cs)
      else split_acc (cur @ [c]) cs)"

definition split :: "string \<Rightarrow> string list" where
  "split s = split_acc [] s"

text \<open>\<open>s.split(sep)\<close> for a one-character separator: empty fields are kept.\<close>

fun split_sep_acc :: "char \<Rightarrow> string \<Rightarrow> string \<Rightarrow> string list" where
  "split_sep_acc sep cur [] = [cur]"
| "split_sep_acc sep cur (c # cs) =
     (if c = sep then cur # split_sep_acc sep [] cs else split_sep_acc sep (cur @ [c]) cs)"

definition split_sep :: "char \<Rightarrow> string \<Rightarrow> string list" where
  "split_sep sep s = split_sep_acc sep [] s"

text \<open>\<open>sep.join(xs)\<close>.\<close>

fun join :: "string \<Rightarrow> string list \<Rightarrow> string" where
  "join sep [] = []"
| "join sep [x] = x"
| "join sep (x # y # ys) = x @ sep @ join sep (y # ys)"

text \<open>\<open>s.strip()\<close> and the slice \<open>xs[:n]\<close> (a negative \<open>n\<close> counts from the end).\<close>

definition strip :: "string \<Rightarrow> string" where
  "strip s = rev (dropWhile is_space (rev (dropWhile is_space s)))"

definition slice_to :: "int \<Rightarrow> 'a list \<Rightarrow> 'a list" where
  "slice_to n xs = (if 0 \<le> n then take (nat n) xs else take (length xs - nat (- n)) xs)"

section \<open>Keyword extraction\<close>

text \<open>
  \<open>Analyzer._extract_keywords\<close> (analyzer.py, lines 149 to 164):
  \<^verbatim>\<open>
  words = [word.lower() for word in text.split() if len(word) > 3]
  word_counts = {word: words.count(word) for word in set(words)}
  sorted_words = sorted(word_counts.items(), key=lambda x: x[1], reverse=True)
  return [word[0] for word in sorted_words[:top_n]]
  \<close>
  The dictionary \<open>word_counts\<close> is filled while iterating over \<open>set(words)\<close>, so its
  items come in the iteration order of that set. Python does not fix this order: for
  strings it follows the hash values, which CPython salts per interpreter process. The
  order is therefore a parameter \<open>set_iter\<close> of the model; what Python guarantees about it
  is \<open>is_set_order\<close>. \<open>sorted\<close> is stable, also with \<open>reverse=True\<close>, and so is
  \<^const>\<open>sort_key\<close>; sorting on the negated count gives the descending order.
\<close>

definition is_set_order :: "('a list \<Rightarrow> 'a list) \<Rightarrow> bool" where
  "is_set_order set_iter = (\<forall>ws. distinct (set_iter ws) \<and> set (set_iter ws) = set ws)"

definition candidate_words :: "string \<Rightarrow> string list" where
  "candidate_words text = map lower (filter (\<lambda>word. 3 < length word) (split text))"

definition extract_keywords :: "(string list \<Rightarrow> string list) \<Rightarrow> string \<Rightarrow> int \<Rightarrow> string list" where
  "extract_keywords set_iter text top_n =
     (let words = candidate_words text;
          word_counts = map (\<lambda>word. (word, count_list words word)) (set_iter words);
          sorted_words = sort_key (\<lambda>x. - int (snd x)) word_counts
      in map fst (slice_to top_n sorted_words))"

text \<open>The sort key of a candidate word: its negated number of occurrences.\<close>

definition keyword_rank :: "string \<Rightarrow> string \<Rightarrow> int" where
  "keyword_rank text w = - int (count_list (candidate_words text) w)"

text \<open>
  Two iteration orders a set of strings can have: by first occurrence, and the reverse
  of that.
\<close>

definition first_seen_order :: "string list \<Rightarrow> string list" where
  "first_seen_order ws = rev (remdups (rev ws))"

definition reversed_order :: "string list \<Rightarrow> string list" where
  "reversed_order ws = remdups (rev ws)"

section \<open>Data model\<close>

text \<open>
  A \<open>datetime\<close> is a point on the time line, counted in microseconds. Python floats are
  modelled by \<^typ>\<open>real\<close>: sums, products and comparisons are the exact ones, and there is
  no NaN (the one place where the code tests for NaN, an undefined rolling mean, is an
  \<^typ>\<open>real option\<close>).
\<close>

type_synonym datetime = int

type_synonym exn = string

record SentimentResult =
  symbol :: string
  text' :: string
  source :: string
  timestamp :: datetime
  vader_score :: real
  bert_score :: real
  normalized_score :: real
  keywords' :: "string list"

record TrendSignal =
  trend_timestamp :: datetime
  short_term_trend :: real
  medium_term_trend :: real
  long_term_trend :: real
  trend_strength :: real
  change_direction :: int

record TradingSignal =
  signal_timestamp :: datetime
  signal_symbol :: string
  sentiment_score :: real
  price :: real
  signal :: string
  confidence :: real

section \<open>Logging and the scorers\<close>

text \<open>
  \<open>ErrorHandler.log_error\<close> and \<open>log_warning\<close> write to a logger and return (no call in
  the modelled code asks to re-raise). The log, together with the invocations of the two
  scorers, is a trace of events.
\<close>

datatype event =
    Vader_call string
  | Bert_call string
  | Error_logged exn string
  | Warning_logged string

text \<open>
  What one call of the analyzer finds around it: the lexicon scorer
  (\<open>vader_analyzer.polarity_scores(text)['compound']\<close>), the learned-model scorer
  (\<open>bert_pipeline(text)[0]\<close>, a label with its score), both of which may raise; the clock;
  the iteration order of sets; and whether the database read and write raise.
\<close>

record bert_result =
  label :: string
  score :: real

record env =
  vader :: "string \<Rightarrow> exn + real"
  bert :: "string \<Rightarrow> exn + bert_result"
  now :: datetime
  set_iter :: "string list \<Rightarrow> string list"
  db_read_error :: "exn option"
  db_write_error :: "exn option"

section \<open>The sentiment cache (DatabaseHandler)\<close>

text \<open>
  Table \<open>sentiment_cache\<close>, with \<open>UNIQUE(symbol, source, text)\<close>. The rows are kept in the
  order of their row ids. The \<open>timestamp\<close> column holds \<open>isoformat()\<close> of the datetime,
  which \<open>fromisoformat\<close> reads back to the same datetime, so the model stores the datetime.
  The \<open>keywords\<close> column holds the comma-joined list as text.
\<close>

record cache_row =
  row_symbol :: string
  row_source :: string
  row_text :: string
  row_timestamp :: datetime
  row_vader_score :: real
  row_bert_score :: real
  row_normalized_score :: real
  row_keywords :: string

record analyzer_state =
  sentiment_cache :: "cache_row list"
  trace :: "event list"

definition log_error :: "analyzer_state \<Rightarrow> exn \<Rightarrow> string \<Rightarrow> analyzer_state" where
  "log_error s e context = s\<lparr>trace := trace s @ [Error_logged e context]\<rparr>"

definition row_of_result :: "SentimentResult \<Rightarrow> cache_row" where
  "row_of_result result =
     \<lparr>row_symbol = symbol result, row_source = source result, row_text = text' result,
      row_timestamp = timestamp result, row_vader_score = vader_score result,
      row_bert_score = bert_score result, row_normalized_score = normalized_score result,
      row_keywords = join '','' (keywords' result)\<rparr>"

definition same_key :: "cache_row \<Rightarrow> cache_row \<Rightarrow> bool" where
  "same_key a b =
     (row_symbol a = row_symbol b \<and> row_source a = row_source b \<and> row_text a = row_text b)"

text \<open>
  \<open>DatabaseHandler.cache_sentiment_result\<close> (database_handler.py, lines 114 to 148):
  \<^verbatim>\<open>
  INSERT OR REPLACE INTO sentiment_cache
  (symbol, source, text, timestamp, vader_score, bert_score, normalized_score, keywords)
  VALUES (?, ?, ?, ?, ?, ?, ?, ?)
  ... result.timestamp.isoformat(), ..., ",".join(result.keywords)
  \<close>
  \<open>INSERT OR REPLACE\<close> deletes the row with the same (symbol, source, text), if any, and
  inserts the new row under a fresh, larger row id. A failure of the database is logged
  and answered with \<open>False\<close>.
\<close>

definition cache_sentiment_result ::
  "env \<Rightarrow> analyzer_state \<Rightarrow> SentimentResult \<Rightarrow> analyzer_state \<times> bool" where
  "cache_sentiment_result e s result =
     (case db_write_error e of
        Some err \<Rightarrow> (log_error s err ''caching sentiment result'', False)
      | None \<Rightarrow>
          (s\<lparr>sentiment_cache :=
               filter (\<lambda>row. \<not> same_key row (row_of_result result)) (sentiment_cache s)
               @ [row_of_result result]\<rparr>, True))"

definition result_of_row :: "cache_row \<Rightarrow> SentimentResult" where
  "result_of_row row =
     \<lparr>symbol = row_symbol row, text' = row_text row, source = row_source row,
      timestamp = row_timestamp row, vader_score = row_vader_score row,
      bert_score = row_bert_score row, normalized_score = row_normalized_score row,
      keywords' = (if row_keywords row \<noteq> [] then split_sep CHR '','' (row_keywords row) else [])\<rparr>"

text \<open>
  \<open>DatabaseHandler.get_cached_sentiment\<close> (database_handler.py, lines 150 to 187):
  \<^verbatim>\<open>
  SELECT symbol, source, text, timestamp, vader_score, bert_score, normalized_score, keywords
  FROM sentiment_cache WHERE source = ? AND text = ?
  row = cursor.fetchone()
  if row:
      return SentimentResult(symbol=row[0], text=row[2], source=row[1],
          timestamp=datetime.fromisoformat(row[3]), vader_score=row[4], bert_score=row[5],
          normalized_score=row[6], keywords=row[7].split(",") if row[7] else [])
  return None
  \<close>
  The query does not name the symbol; \<open>fetchone()\<close> gives the first matching row. A
  failure of the database is logged and answered with \<open>None\<close>.
\<close>

definition get_cached_sentiment ::
  "env \<Rightarrow> analyzer_state \<Rightarrow> string \<Rightarrow> string \<Rightarrow> analyzer_state \<times> SentimentResult option" where
  "get_cached_sentiment e s src txt =
     (case db_read_error e of
        Some err \<Rightarrow> (log_error s err ''retrieving cached sentiment'', None)
      | None \<Rightarrow>
          (s, map_option result_of_row
                (find (\<lambda>row. row_source row = src \<and> row_text row = txt) (sentiment_cache s))))"

section \<open>The analyzer\<close>

text \<open>
  \<open>Analyzer._clean_and_truncate_text\<close>:
  \<^verbatim>\<open>
  text = re.sub(r'http\S+|www\S+|https\S+', '', text, flags=re.MULTILINE)
  text = re.sub(r'\@\w+|\#', '', text)
  text = text.strip()[:max_length]
  \<close>
  \<open>re.sub\<close> scans from the left and deletes each match. A literal followed by \<open>\S+\<close>
  matches where the literal stands and one more non-space character follows; the match
  then runs to the next whitespace, since the literals hold no whitespace themselves.
\<close>

definition literal_nonspace :: "string \<Rightarrow> string \<Rightarrow> bool" where
  "literal_nonspace lit s =
     (take (length lit) s = lit \<and>
      (case drop (length lit) s of [] \<Rightarrow> False | c # _ \<Rightarrow> \<not> is_space c))"

definition url_match :: "string \<Rightarrow> bool" where
  "url_match s =
     (literal_nonspace ''http'' s \<or> literal_nonspace ''www'' s \<or> literal_nonspace ''https'' s)"

function remove_urls :: "string \<Rightarrow> string" where
  "remove_urls [] = []"
| "remove_urls (c # cs) =
     (if url_match (c # cs) then remove_urls (dropWhile (\<lambda>x. \<not> is_space x) cs)
      else c # remove_urls cs)"
  by pat_completeness auto
termination
  by (relation "measure length") (simp_all add: length_dropWhile_le le_imp_less_Suc)

function remove_mentions :: "string \<Rightarrow> string" where
  "remove_mentions [] = []"
| "remove_mentions (c # cs) =
     (if c = CHR ''@'' \<and> (case cs of [] \<Rightarrow> False | d # _ \<Rightarrow> is_word_char d)
      then remove_mentions (dropWhile is_word_char cs)
      else if c = CHR ''#'' then remove_mentions cs
      else c # remove_mentions cs)"
  by pat_completeness auto
termination
  by (relation "measure length") (simp_all add: length_dropWhile_le le_imp_less_Suc)

definition clean_and_truncate_text :: "string \<Rightarrow> int \<Rightarrow> string" where
  "clean_and_truncate_text text max_length =
     slice_to max_length (strip (remove_mentions (remove_urls text)))"

definition convert_bert_label_to_score :: "bert_result \<Rightarrow> real" where
  "convert_bert_label_to_score bert_result =
     (if lower (label bert_result) = ''positive'' then score bert_result
      else if lower (label bert_result) = ''negative'' then - score bert_result
      else 0)"

definition normalize_scores :: "real \<Rightarrow> real \<Rightarrow> real" where
  "normalize_scores v_score b_score = v_score * 0.6 + b_score * 0.4"

text \<open>
  \<open>Analyzer.analyze_text\<close> (analyzer.py, lines 61 to 107):
  \<^verbatim>\<open>
  cached = self.db_handler.get_cached_sentiment(source, text)
  if cached:
      return cached
  try:
      timestamp = pub_date if pub_date else datetime.now(timezone.utc)
      vader_scores = self.vader_analyzer.polarity_scores(text)
      vader_score = vader_scores['compound']
      bert_score = 0.0
      try:
          truncated_text = self._clean_and_truncate_text(text, max_length=100)
          bert_result = self.bert_pipeline(truncated_text)[0]
          bert_score = self._convert_bert_label_to_score(bert_result)
      except Exception as e:
          self.error_handler.log_error(e, f"BERT analysis for text from {source}")
          bert_score = 0.0
      normalized_score = self._normalize_scores(vader_score, bert_score)
      keywords = self._extract_keywords(text)
      result = SentimentResult(symbol=symbol, text=text, source=source, ...)
      self.db_handler.cache_sentiment_result(result)
      return result
  except Exception as e:
      self.error_handler.log_error(e, f"analyzing text from {source}")
      return None
  \<close>
  The inner \<open>try\<close> turns a failure of the learned-model scorer into a logged error and
  the score 0; the outer \<open>try\<close> turns any other failure (here: of the lexicon scorer)
  into a logged error and the answer \<open>None\<close>. The answer of \<open>cache_sentiment_result\<close> is
  not looked at. A cached result is an object and so always true in \<open>if cached\<close>.
\<close>

definition analyze_text ::
  "env \<Rightarrow> analyzer_state \<Rightarrow> string \<Rightarrow> string \<Rightarrow> string \<Rightarrow> datetime option
     \<Rightarrow> analyzer_state \<times> SentimentResult option" where
  "analyze_text e s text src symb pub_date =
     (case get_cached_sentiment e s src text of
        (s1, Some cached) \<Rightarrow> (s1, Some cached)
      | (s1, None) \<Rightarrow>
          (let stamp = (case pub_date of Some d \<Rightarrow> d | None \<Rightarrow> now e);
               s2 = s1\<lparr>trace := trace s1 @ [Vader_call text]\<rparr>
           in case vader e text of
                Inl err \<Rightarrow> (log_error s2 err (''analyzing text from '' @ src), None)
              | Inr v_score \<Rightarrow>
                  (let truncated_text = clean_and_truncate_text text 100;
                       s3 = s2\<lparr>trace := trace s2 @ [Bert_call truncated_text]\<rparr>;
                       (s4, b_score) =
                          (case bert e truncated_text of
                             Inl err \<Rightarrow>
                               (log_error s3 err (''BERT analysis for text from '' @ src), 0)
                           | Inr bert_result \<Rightarrow> (s3, convert_bert_label_to_score bert_result));
                       result =
                         \<lparr>symbol = symb, text' = text, source = src, timestamp = stamp,
                          vader_score = v_score, bert_score = b_score,
                          normalized_score = normalize_scores v_score b_score,
                          keywords' = extract_keywords (set_iter e) text 5\<rparr>
                   in (fst (cache_sentiment_result e s4 result), Some result))))"

text \<open>
  The states an analyzer can be in: it starts on an empty cache, and the cache is
  written by \<open>analyze_text\<close> only.
\<close>

definition initial_state :: analyzer_state where
  "initial_state = \<lparr>sentiment_cache = [], trace = []\<rparr>"

inductive reachable :: "analyzer_state \<Rightarrow> bool" where
  reachable_initial: "reachable initial_state"
| reachable_analyze:
    "reachable s \<Longrightarrow> analyze_text e s text src symb pub_date = (s', r) \<Longrightarrow> reachable s'"


text \<open>
  Names for the parts of \<open>analyze_text\<close> on a cache miss: the score taken for the learned
  model, and the result built from the lexicon score \<open>v\<close>.
\<close>

definition fresh_bert_score :: "env \<Rightarrow> string \<Rightarrow> real" where
  "fresh_bert_score e text =
     (case bert e (clean_and_truncate_text text 100) of
        Inl err \<Rightarrow> 0 | Inr b \<Rightarrow> convert_bert_label_to_score b)"

definition fresh_result ::
  "env \<Rightarrow> string \<Rightarrow> string \<Rightarrow> string \<Rightarrow> datetime option \<Rightarrow> real \<Rightarrow> SentimentResult" where
  "fresh_result e text src symb pub_date v =
     \<lparr>symbol = symb, text' = text, source = src,
      timestamp = (case pub_date of Some d \<Rightarrow> d | None \<Rightarrow> now e),
      vader_score = v, bert_score = fresh_bert_score e text,
      normalized_score = normalize_scores v (fresh_bert_score e text),
      keywords' = extract_keywords (set_iter e) text 5\<rparr>"

section \<open>The trend generator\<close>

text \<open>
  The window sizes are a dictionary with the keys \<open>short_term\<close>, \<open>medium_term\<close> and
  \<open>long_term\<close> (defaults 3, 7 and 14); \<open>max(self.window_sizes.values())\<close> is the largest
  of the three.
\<close>

record window_dict =
  short_term :: int
  medium_term :: int
  long_term :: int

record TrendGenerator =
  window_sizes :: window_dict
  update_frequency :: string

definition max_window :: "window_dict \<Rightarrow> int" where
  "max_window ws = max (short_term ws) (max (medium_term ws) (long_term ws))"

text \<open>\<open>freq_map.get(self.update_frequency, "1h")\<close>, as the width of a bin in microseconds.\<close>

definition resample_width :: "string \<Rightarrow> int" where
  "resample_width freq =
     (if freq = ''5m'' then 300000000
      else if freq = ''15m'' then 900000000
      else if freq = ''1h'' then 3600000000
      else if freq = ''4h'' then 14400000000
      else if freq = ''1d'' then 86400000000
      else 3600000000)"

text \<open>
  \<open>df.set_index('timestamp').resample(freq).mean()\<close> on a frame sorted by timestamp: one
  bin for every multiple of the width from the bin of the first row to the bin of the
  last row, holding the mean of the scores that fall into it, or no value (NaN) when none
  does. pandas anchors the bins at the midnight of the first day, in the time zone of
  the timestamps; all five widths divide a day, so with the microseconds counted from
  such a midnight the bin of a time is its quotient by the width.
  \<open>ffill()\<close> then gives a bin without value the value of the nearest earlier bin with one.
\<close>

definition mean :: "real list \<Rightarrow> real option" where
  "mean xs = (if xs = [] then None else Some (sum_list xs / real (length xs)))"

definition bin_of :: "int \<Rightarrow> datetime \<Rightarrow> int" where
  "bin_of width t = t div width"

definition resample_mean :: "int \<Rightarrow> (datetime \<times> real) list \<Rightarrow> real option list" where
  "resample_mean width df =
     (case df of
        [] \<Rightarrow> []
      | row # _ \<Rightarrow>
          map (\<lambda>k. mean (map snd (filter (\<lambda>r. bin_of width (fst r) = k) df)))
            [bin_of width (fst row) .. bin_of width (fst (last df))])"

fun ffill :: "real option \<Rightarrow> real option list \<Rightarrow> real option list" where
  "ffill prev [] = []"
| "ffill prev (None # xs) = prev # ffill prev xs"
| "ffill prev (Some v # xs) = Some v # ffill (Some v) xs"

text \<open>
  \<open>series.rolling(window=w).mean().iloc[-1]\<close>: the mean of the last \<open>w\<close> values. pandas
  raises for a negative window, and \<open>iloc[-1]\<close> raises on an empty series. The value is
  NaN when the window is 0, when the series has fewer than \<open>w\<close> values, or when one of
  the last \<open>w\<close> values is NaN.
\<close>

definition rolling_mean_last :: "int \<Rightarrow> real option list \<Rightarrow> exn + real option" where
  "rolling_mean_last w xs =
     (if w < 0 then Inl ''window must be an integer 0 or greater''
      else if xs = [] then Inl ''single positional indexer is out-of-bounds''
      else if w = 0 \<or> int (length xs) < w then Inr None
      else case those (drop (length xs - nat w) xs) of
             None \<Rightarrow> Inr None
           | Some vs \<Rightarrow> Inr (mean vs))"

text \<open>
  \<open>TrendGenerator._calculate_trend_strength\<close> and \<open>_determine_direction\<close>
  (trend_generator.py, lines 148 to 179):
  \<^verbatim>\<open>
  divergence = abs(short - medium) + abs(medium - long)
  return min(divergence * 10, 1.0)

  if short > medium > long:
      return 1
  elif short < medium < long:
      return -1
  return 0
  \<close>
\<close>

definition calculate_trend_strength :: "real \<Rightarrow> real \<Rightarrow> real \<Rightarrow> real" where
  "calculate_trend_strength short medium long =
     (let divergence = \<bar>short - medium\<bar> + \<bar>medium - long\<bar>
      in min (divergence * 10) 1.0)"

definition determine_direction :: "real \<Rightarrow> real \<Rightarrow> real \<Rightarrow> int" where
  "determine_direction short medium long =
     (if short > medium \<and> medium > long then 1
      else if short < medium \<and> medium < long then - 1
      else 0)"

text \<open>The decimal numeral of an integer, as an f-string prints it.\<close>

fun digits :: "nat \<Rightarrow> string" where
  "digits n =
     (if n < 10 then [char_of (48 + n)] else digits (n div 10) @ [char_of (48 + n mod 10)])"

definition str_int :: "int \<Rightarrow> string" where
  "str_int i = (if i < 0 then CHR ''-'' # digits (nat (- i)) else digits (nat i))"

text \<open>
  Lines 84 to 102 of \<open>generate_trend_signals\<close>: the frame of (timestamp, score) rows,
  sorted by timestamp, resampled and forward-filled.
\<close>

definition resample_frame :: "TrendGenerator \<Rightarrow> SentimentResult list \<Rightarrow> real option list" where
  "resample_frame g sentiment_data =
     (let rows = sort_key fst (map (\<lambda>sr. (timestamp sr, normalized_score sr)) sentiment_data)
      in ffill None (resample_mean (resample_width (update_frequency g)) rows))"

text \<open>
  \<open>TrendGenerator.generate_trend_signals\<close> (trend_generator.py, lines 68 to 146):
  \<^verbatim>\<open>
  if not sentiment_data or len(sentiment_data) < max(self.window_sizes.values()):
      self.error_handler.log_warning("Insufficient data for trend analysis")
      return None
  try:
      df = ...                       # rows, sorted, resampled, forward-filled
      min_required = max(self.window_sizes.values())
      if len(df) < min_required:
          self.error_handler.log_warning(f"Only {len(df)} data points after resampling, "
                                         f"need at least {min_required}")
          return None
      short_term = df['score'].rolling(window=self.window_sizes['short_term']).mean().iloc[-1]
      medium_term = ...
      long_term = ...
      if any(np.isnan(x) for x in [short_term, medium_term, long_term]):
          self.error_handler.log_warning("NaN values in trend calculations, insufficient data")
          return None
      trend_strength = self._calculate_trend_strength(short_term, medium_term, long_term)
      change_direction = self._determine_direction(short_term, medium_term, long_term)
      return TrendSignal(timestamp=datetime.now(), ...)
  except Exception as e:
      self.error_handler.log_error(e, "generating trend signals")
      return None
  \<close>
  The first test stands before the \<open>try\<close>; everything raised after it is logged and
  answered with \<open>None\<close>. The answer comes with the log entries written on the way.
\<close>

definition generate_trend_signals ::
  "TrendGenerator \<Rightarrow> datetime \<Rightarrow> SentimentResult list \<Rightarrow> event list \<times> TrendSignal option" where
  "generate_trend_signals g clock sentiment_data =
     (if sentiment_data = [] \<or> int (length sentiment_data) < max_window (window_sizes g)
      then ([Warning_logged ''Insufficient data for trend analysis''], None)
      else
        (let df = resample_frame g sentiment_data;
             min_required = max_window (window_sizes g)
         in if int (length df) < min_required
            then ([Warning_logged (''Only '' @ str_int (int (length df))
                     @ '' data points after resampling, need at least ''
                     @ str_int min_required)], None)
            else
              (case rolling_mean_last (short_term (window_sizes g)) df of
                 Inl err \<Rightarrow> ([Error_logged err ''generating trend signals''], None)
               | Inr short \<Rightarrow>
              (case rolling_mean_last (medium_term (window_sizes g)) df of
                 Inl err \<Rightarrow> ([Error_logged err ''generating trend signals''], None)
               | Inr medium \<Rightarrow>
              (case rolling_mean_last (long_term (window_sizes g)) df of
                 Inl err \<Rightarrow> ([Error_logged err ''generating trend signals''], None)
               | Inr long \<Rightarrow>
              (case (short, medium, long) of
                 (Some sh, Some me, Some lo) \<Rightarrow>
                   ([], Some \<lparr>trend_timestamp = clock,
                              short_term_trend = sh,
                              medium_term_trend = me,
                              long_term_trend = lo,
                              trend_strength = calculate_trend_strength sh me lo,
                              change_direction = determine_direction sh me lo\<rparr>)
               | _ \<Rightarrow>
                   ([Warning_logged ''NaN values in trend calculations, insufficient data''],
                    None)))))))"

section \<open>The signal generator\<close>

record thresholds =
  buy :: real
  sell :: real
  confidence_threshold :: real

text \<open>
  \<open>SignalGenerator.generate_trading_signal\<close> (signal_generator.py, lines 75 to 105); the
  basic signal is its lines 80 to 85.
  \<^verbatim>\<open>
  if not trend_signal:
      return None
  if trend_signal.short_term_trend > self.thresholds['buy']:
      signal = "BUY"
  elif trend_signal.short_term_trend < self.thresholds['sell']:
      signal = "SELL"
  else:
      signal = "HOLD"
  confidence = min(abs(trend_signal.short_term_trend), trend_signal.trend_strength)
  if confidence < self.thresholds['confidence_threshold']:
      signal = "HOLD"
  return TradingSignal(timestamp=datetime.now(), symbol=symbol,
      sentiment_score=trend_signal.short_term_trend, price=current_price,
      signal=signal, confidence=confidence)
  \<close>
  The thresholds are a dictionary with the keys \<open>buy\<close>, \<open>sell\<close> and
  \<open>confidence_threshold\<close> (defaults 0.5, -0.5 and 0.7), given to the constructor.
\<close>

definition basic_signal :: "thresholds \<Rightarrow> TrendSignal \<Rightarrow> string" where
  "basic_signal th trend_signal =
     (if short_term_trend trend_signal > buy th then ''BUY''
      else if short_term_trend trend_signal < sell th then ''SELL''
      else ''HOLD'')"

definition generate_trading_signal ::
  "thresholds \<Rightarrow> datetime \<Rightarrow> string \<Rightarrow> TrendSignal option \<Rightarrow> real \<Rightarrow> TradingSignal option" where
  "generate_trading_signal th clock symb trend current_price =
     (case trend of
        None \<Rightarrow> None
      | Some trend_signal \<Rightarrow>
          (let sig = basic_signal th trend_signal;
               conf = min \<bar>short_term_trend trend_signal\<bar> (trend_strength trend_signal);
               sig = (if conf < confidence_threshold th then ''HOLD'' else sig)
           in Some \<lparr>signal_timestamp = clock,
                     signal_symbol = symb,
                     sentiment_score = short_term_trend trend_signal,
                     price = current_price,
                     signal = sig,
                     confidence = conf\<rparr>))"

section \<open>Example inputs\<close>

text \<open>
  An environment in which both scorers answer, and one in which the learned model
  raises; a headline with a comma; a first call on the empty cache, a second call for
  the same source and text under another symbol and publish time, and a call in which the
  learned model raises.
\<close>

definition scoring_env :: env where
  "scoring_env =
     \<lparr>vader = (\<lambda>t. Inr 0.5),
      bert = (\<lambda>t. Inr \<lparr>label = ''POSITIVE'', score = 0.9\<rparr>),
      now = 1000, set_iter = first_seen_order,
      db_read_error = None, db_write_error = None\<rparr>"

definition failing_bert_env :: env where
  "failing_bert_env = scoring_env\<lparr>bert := (\<lambda>t. Inl ''model failure'')\<rparr>"

definition headline :: string where
  "headline = ''Stocks rally, bonds fall''"

definition first_call :: "analyzer_state \<times> SentimentResult option" where
  "first_call = analyze_text scoring_env initial_state headline ''feed'' ''GC=F'' None"

definition second_call :: "analyzer_state \<times> SentimentResult option" where
  "second_call = analyze_text scoring_env (fst first_call) headline ''feed'' ''CL=F'' (Some 5)"

definition failed_call :: "analyzer_state \<times> SentimentResult option" where
  "failed_call = analyze_text failing_bert_env initial_state headline ''feed'' ''GC=F'' None"




text \<open>
  The default thresholds of the signal generator, thresholds with buy below sell, and a
  trend signal with a given short-term trend and strength.
\<close>

definition default_thresholds :: thresholds where
  "default_thresholds = \<lparr>buy = 0.5, sell = - 0.5, confidence_threshold = 0.7\<rparr>"

definition inverted_thresholds :: thresholds where
  "inverted_thresholds = \<lparr>buy = - 0.5, sell = 0.5, confidence_threshold = 0.7\<rparr>"

definition trend_of :: "real \<Rightarrow> real \<Rightarrow> TrendSignal" where
  "trend_of short strength =
     \<lparr>trend_timestamp = 0, short_term_trend = short, medium_term_trend = 0,
      long_term_trend = 0, trend_strength = strength, change_direction = 0\<rparr>"

text \<open>A trend generator with windows 1, 2 and 3 on five-minute bins, and a result.\<close>

definition small_generator :: TrendGenerator where
  "small_generator =
     \<lparr>window_sizes = \<lparr>short_term = 1, medium_term = 2, long_term = 3\<rparr>,
      update_frequency = ''5m''\<rparr>"

definition result_at :: "datetime \<Rightarrow> real \<Rightarrow> SentimentResult" where
  "result_at t v =
     \<lparr>symbol = ''GC=F'', text' = ''Market update'', source = ''feed'', timestamp = t,
      vader_score = v, bert_score = v, normalized_score = v,
      keywords' = [''market'', ''update'']\<rparr>"

section \<open>Keywords\<close>

lemma insort_key_map:
  "insort_key f (g x) (map g xs) = map g (insort_key (\<lambda>y. f (g y)) x xs)"
  by (induction xs) simp_all

lemma sort_key_map: "sort_key f (map g xs) = map g (sort_key (\<lambda>y. f (g y)) xs)"
  by (induction xs) (simp_all add: insort_key_map)

lemma slice_to_take: "\<exists>m. slice_to n xs = take m xs"
  by (auto simp: slice_to_def)

text \<open>The keywords are a slice of the candidate set, stably sorted by falling count.\<close>

lemma extract_keywords_sorted:
  "extract_keywords iter text top_n =
     slice_to top_n (sort_key (keyword_rank text) (iter (candidate_words text)))"
proof -
  have m: "map fst (slice_to n xs) = slice_to n (map fst xs)"
    for n and xs :: "(string \<times> nat) list"
    by (simp add: slice_to_def take_map)
  show ?thesis
    by (simp add: extract_keywords_def Let_def m sort_key_map keyword_rank_def[abs_def] o_def)
qed

lemma filter_take_prefix:
  "filter P (take m xs) = take (length (filter P (take m xs))) (filter P xs)"
proof (induction xs arbitrary: m)
  case Nil
  then show ?case by simp
next
  case (Cons x xs)
  then show ?case by (cases m) auto
qed

lemma sorted_take_drop_le:
  assumes "sorted (map f ys)" and "a \<in> set (take m ys)" and "b \<in> set ys"
    and "b \<notin> set (take m ys)"
  shows "f a \<le> f b"
proof -
  from assms(3,4) have "b \<in> set (drop m ys)"
    by (metis Un_iff append_take_drop_id set_append)
  moreover have "sorted (map f (take m ys) @ map f (drop m ys))"
    using assms(1) by (metis append_take_drop_id map_append)
  ultimately show ?thesis
    using assms(2) by (auto simp: sorted_append)
qed

lemma is_set_order_first_seen: "is_set_order first_seen_order"
  by (simp add: is_set_order_def first_seen_order_def)

lemma is_set_order_reversed: "is_set_order reversed_order"
  by (simp add: is_set_order_def reversed_order_def)

lemma extract_keywords_props:
  fixes doc :: string and top_n :: int
  assumes "is_set_order iter"
  defines "words \<equiv> candidate_words doc"
  defines "ks \<equiv> extract_keywords iter doc top_n"
  shows "distinct ks"
    and "set ks \<subseteq> set words"
    and "0 \<le> top_n \<Longrightarrow> length ks = min (nat top_n) (card (set words))"
    and "sorted_wrt (\<lambda>a b. count_list words b \<le> count_list words a) ks"
    and "\<forall>a \<in> set ks. \<forall>b \<in> set words - set ks. count_list words b \<le> count_list words a"
    and "filter (\<lambda>w. count_list words w = c) ks
           = take (length (filter (\<lambda>w. count_list words w = c) ks))
               (filter (\<lambda>w. count_list words w = c) (iter words))"
proof -
  let ?ys = "sort_key (keyword_rank doc) (iter words)"
  from assms(1) have d: "distinct (iter words)" and s: "set (iter words) = set words"
    by (simp_all add: is_set_order_def)
  obtain m where ks: "ks = take m ?ys"
    using slice_to_take[of top_n ?ys] by (auto simp: ks_def words_def extract_keywords_sorted)
  have srt: "sorted (map (keyword_rank doc) ?ys)"
    by (rule sorted_sort_key)
  show "distinct ks" using d by (simp add: ks)
  show "set ks \<subseteq> set words" using s set_take_subset[of m ?ys] by (simp add: ks)
  show "length ks = min (nat top_n) (card (set words))" if "0 \<le> top_n"
    using that d s distinct_card[of "iter words"]
    by (simp add: ks_def extract_keywords_sorted slice_to_def words_def)
  have "sorted_wrt (\<lambda>a b. keyword_rank doc a \<le> keyword_rank doc b) ?ys"
    using srt by (simp add: sorted_map)
  then have "sorted_wrt (\<lambda>a b. keyword_rank doc a \<le> keyword_rank doc b) ks"
    unfolding ks by (rule sorted_wrt_take)
  then show "sorted_wrt (\<lambda>a b. count_list words b \<le> count_list words a) ks"
    by (simp add: keyword_rank_def words_def)
  show "\<forall>a \<in> set ks. \<forall>b \<in> set words - set ks. count_list words b \<le> count_list words a"
  proof (intro ballI)
    fix a b assume a: "a \<in> set ks" and b: "b \<in> set words - set ks"
    have "keyword_rank doc a \<le> keyword_rank doc b"
      using sorted_take_drop_le[OF srt, of a m b] a b s by (simp add: ks)
    then show "count_list words b \<le> count_list words a"
      by (simp add: keyword_rank_def words_def)
  qed
  have st: "filter (\<lambda>w. keyword_rank doc w = k) ?ys
              = filter (\<lambda>w. keyword_rank doc w = k) (iter words)" for k
    by (rule sort_key_stable)
  have eq: "(\<lambda>w. count_list words w = c) = (\<lambda>w. keyword_rank doc w = - int c)"
    by (auto simp: keyword_rank_def words_def)
  show "filter (\<lambda>w. count_list words w = c) ks
           = take (length (filter (\<lambda>w. count_list words w = c) ks))
               (filter (\<lambda>w. count_list words w = c) (iter words))"
    unfolding eq ks using filter_take_prefix[of "\<lambda>w. keyword_rank doc w = - int c" m ?ys]
    by (simp add: st)
qed

lemma headline_words: "candidate_words headline = [''stocks'', ''rally,'', ''bonds'', ''fall'']"
  by code_simp

lemma headline_keywords:
  "extract_keywords first_seen_order headline 5 = [''stocks'', ''rally,'', ''bonds'', ''fall'']"
  by (simp add: extract_keywords_def headline_words first_seen_order_def slice_to_def)

lemma gold_rally_words: "candidate_words ''gold rally'' = [''gold'', ''rally'']"
  by code_simp

text \<open>
  C9, as the claim states it, fails: the same text gives two different keyword lists
  under two iteration orders of the set of candidate words. The two candidate words of
  ``gold rally'' occur once each, and the tie is broken by the order of the set.
\<close>

theorem extract_keywords_order_counterexample:
  "is_set_order first_seen_order \<and> is_set_order reversed_order
   \<and> extract_keywords first_seen_order ''gold rally'' 5 = [''gold'', ''rally'']
   \<and> extract_keywords reversed_order ''gold rally'' 5 = [''rally'', ''gold'']
   \<and> extract_keywords first_seen_order ''gold rally'' 5
       \<noteq> extract_keywords reversed_order ''gold rally'' 5"
  by (simp add: is_set_order_first_seen is_set_order_reversed extract_keywords_def
      gold_rally_words first_seen_order_def reversed_order_def slice_to_def)

text \<open>
  C9, amended. Keyword extraction is a function of the text and of the iteration order
  of the set of candidate words. For every such order the keywords are distinct
  lowercased tokens of more than 3 characters of the text, as many as the top N allows,
  in the order of falling frequency; a candidate that is left out occurs at most as often
  as every keyword; and keywords of equal frequency stand in the iteration order of the
  set. So two runs agree whenever the set iterates in the same order, as it does within
  one interpreter process.
\<close>

theorem extract_keywords_ranked:
  assumes "is_set_order iter"
  shows "distinct (extract_keywords iter doc top_n)
     \<and> set (extract_keywords iter doc top_n) \<subseteq> set (candidate_words doc)
     \<and> (0 \<le> top_n \<longrightarrow>
          length (extract_keywords iter doc top_n)
            = min (nat top_n) (card (set (candidate_words doc))))
     \<and> sorted_wrt
          (\<lambda>a b. count_list (candidate_words doc) b \<le> count_list (candidate_words doc) a)
          (extract_keywords iter doc top_n)
     \<and> (\<forall>a \<in> set (extract_keywords iter doc top_n).
          \<forall>b \<in> set (candidate_words doc) - set (extract_keywords iter doc top_n).
            count_list (candidate_words doc) b \<le> count_list (candidate_words doc) a)
     \<and> (\<forall>c. filter (\<lambda>w. count_list (candidate_words doc) w = c)
               (extract_keywords iter doc top_n)
             = take (length (filter (\<lambda>w. count_list (candidate_words doc) w = c)
                               (extract_keywords iter doc top_n)))
                 (filter (\<lambda>w. count_list (candidate_words doc) w = c)
                    (iter (candidate_words doc))))"
  using extract_keywords_props[OF assms, where doc = doc and top_n = top_n] by blast

theorem extract_keywords_ranked_witness:
  "is_set_order first_seen_order
   \<and> distinct (extract_keywords first_seen_order headline 5)
   \<and> length (extract_keywords first_seen_order headline 5) = 4
   \<and> set (extract_keywords first_seen_order headline 5)
       \<subseteq> {''stocks'', ''rally,'', ''bonds'', ''fall''}"
  using extract_keywords_ranked[OF is_set_order_first_seen, where doc = headline and top_n = 5]
  by (simp add: is_set_order_first_seen headline_words)

section \<open>The analyzer and its cache\<close>


lemma get_cached_sentiment_state:
  "db_read_error e = None \<Longrightarrow> fst (get_cached_sentiment e s src text) = s"
  by (simp add: get_cached_sentiment_def)

lemma analyze_text_miss:
  assumes "get_cached_sentiment e s src text = (s1, None)" and "vader e text = Inr v"
  shows "snd (analyze_text e s text src symb pub_date) = Some (fresh_result e text src symb pub_date v)"
  using assms
  by (simp add: analyze_text_def Let_def fresh_result_def fresh_bert_score_def split: sum.splits)

lemma analyze_text_miss_cache:
  assumes "get_cached_sentiment e s src text = (s1, None)" and "vader e text = Inr v"
    and "db_write_error e = None"
  shows "sentiment_cache (fst (analyze_text e s text src symb pub_date))
         = filter (\<lambda>row. \<not> same_key row (row_of_result (fresh_result e text src symb pub_date v)))
             (sentiment_cache s1)
           @ [row_of_result (fresh_result e text src symb pub_date v)]"
  using assms
  by (simp add: analyze_text_def Let_def fresh_result_def fresh_bert_score_def
      cache_sentiment_result_def log_error_def split: sum.splits)

lemma analyze_text_vader_fails:
  assumes "get_cached_sentiment e s src text = (s1, None)" and "vader e text = Inl err"
  shows "snd (analyze_text e s text src symb pub_date) = None"
  using assms by (simp add: analyze_text_def Let_def)





text \<open>A step of the analyzer, as what it does to the cache.\<close>

lemma analyze_text_cache_cases:
  assumes "analyze_text e s text src symb pub_date = (s', r)"
  shows "sentiment_cache s' = sentiment_cache s
         \<or> (\<exists>v. vader e text = Inr v \<and> snd (get_cached_sentiment e s src text) = None
              \<and> r = Some (fresh_result e text src symb pub_date v)
              \<and> sentiment_cache s'
                 = filter (\<lambda>row. \<not> same_key row (row_of_result (fresh_result e text src symb pub_date v)))
                     (sentiment_cache s)
                   @ [row_of_result (fresh_result e text src symb pub_date v)])"
proof (cases "get_cached_sentiment e s src text")
  case (Pair s1 c)
  have s1: "sentiment_cache s1 = sentiment_cache s"
    using Pair by (auto simp: get_cached_sentiment_def log_error_def split: option.splits)
  show ?thesis
  proof (cases c)
    case (Some cached)
    with Pair assms s1 show ?thesis by (simp add: analyze_text_def)
  next
    case None
    show ?thesis
    proof (cases "vader e text")
      case (Inl err)
      with Pair None assms s1 show ?thesis
        by (auto simp: analyze_text_def Let_def log_error_def)
    next
      case (Inr v)
      show ?thesis
      proof (cases "db_write_error e")
        case wn: None
        have "sentiment_cache (fst (analyze_text e s text src symb pub_date))
           = filter (\<lambda>row. \<not> same_key row (row_of_result (fresh_result e text src symb pub_date v)))
               (sentiment_cache s1)
             @ [row_of_result (fresh_result e text src symb pub_date v)]"
          using Pair None Inr wn by (intro analyze_text_miss_cache) simp_all
        moreover have "snd (analyze_text e s text src symb pub_date)
            = Some (fresh_result e text src symb pub_date v)"
          using Pair None Inr by (intro analyze_text_miss) simp_all
        ultimately show ?thesis using assms Inr Pair None s1 by simp
      next
        case (Some werr)
        with Pair None Inr assms s1 show ?thesis
          by (auto simp: analyze_text_def Let_def cache_sentiment_result_def log_error_def
              split: sum.splits)
      qed
    qed
  qed
qed


lemma row_of_result_fresh [simp]:
  "row_source (row_of_result (fresh_result e text src symb pub_date v)) = src"
  "row_text (row_of_result (fresh_result e text src symb pub_date v)) = text"
  "row_symbol (row_of_result (fresh_result e text src symb pub_date v)) = symb"
  by (simp_all add: row_of_result_def fresh_result_def)






lemma first_call_value:
  "first_call =
     (\<lparr>sentiment_cache =
         [\<lparr>row_symbol = ''GC=F'', row_source = ''feed'', row_text = headline,
           row_timestamp = 1000, row_vader_score = 0.5, row_bert_score = 0.9,
           row_normalized_score = 0.66, row_keywords = ''stocks,rally,,bonds,fall''\<rparr>],
       trace = [Vader_call headline, Bert_call (clean_and_truncate_text headline 100)]\<rparr>,
      Some \<lparr>symbol = ''GC=F'', text' = headline, source = ''feed'', timestamp = 1000,
            vader_score = 0.5, bert_score = 0.9, normalized_score = 0.66,
            keywords' = [''stocks'', ''rally,'', ''bonds'', ''fall'']\<rparr>)"
proof -
  have l: "lower ''POSITIVE'' = ''positive''" by code_simp
  show ?thesis
    by (simp add: first_call_def analyze_text_def get_cached_sentiment_def scoring_env_def
        initial_state_def Let_def convert_bert_label_to_score_def l normalize_scores_def
        headline_keywords cache_sentiment_result_def row_of_result_def)
qed

lemma second_call_value:
  "second_call =
     (fst first_call,
      Some \<lparr>symbol = ''GC=F'', text' = headline, source = ''feed'', timestamp = 1000,
            vader_score = 0.5, bert_score = 0.9, normalized_score = 0.66,
            keywords' = [''stocks'', ''rally'', [], ''bonds'', ''fall'']\<rparr>)"
  by (simp add: second_call_def first_call_value analyze_text_def get_cached_sentiment_def
      scoring_env_def result_of_row_def split_sep_def)






text \<open>
  C1, at the headline ``Stocks rally, bonds fall''. The first call returns the keywords
  stocks, ``rally,'' (with its comma), bonds and fall, and stores them joined by commas.
  The second call, for the same source and text, returns the stored text split at every
  comma: five keywords, among them ``rally'' and the empty string. The scores are the
  same and the trace did not grow (no scorer ran), but the keywords are not those of the
  first call.
\<close>

theorem repeated_call_changes_keywords:
  "map_option keywords' (snd first_call) = Some [''stocks'', ''rally,'', ''bonds'', ''fall'']
   \<and> map_option keywords' (snd second_call) = Some [''stocks'', ''rally'', [], ''bonds'', ''fall'']
   \<and> map_option normalized_score (snd second_call) = map_option normalized_score (snd first_call)
   \<and> trace (fst second_call) = trace (fst first_call)"
  by (simp add: second_call_value) (simp add: first_call_value)

lemma analyze_text_keeps_law:
  assumes "\<forall>row \<in> set (sentiment_cache s).
             row_normalized_score row = 0.6 * row_vader_score row + 0.4 * row_bert_score row"
    and "analyze_text e s text src symb pub_date = (s', r)"
  shows "\<forall>row \<in> set (sentiment_cache s').
             row_normalized_score row = 0.6 * row_vader_score row + 0.4 * row_bert_score row"
  using analyze_text_cache_cases[OF assms(2)] assms(1)
  by (auto simp: row_of_result_def fresh_result_def normalize_scores_def)

lemma reachable_law:
  "reachable s \<Longrightarrow>
   \<forall>row \<in> set (sentiment_cache s).
     row_normalized_score row = 0.6 * row_vader_score row + 0.4 * row_bert_score row"
proof (induction rule: reachable.induct)
  case reachable_initial
  then show ?case by (simp add: initial_state_def)
next
  case (reachable_analyze s e tx src symb pub_date s' r)
  then show ?case using analyze_text_keeps_law by blast
qed

text \<open>
  C2. Every result that \<open>analyze_text\<close> returns, computed or read back from the cache, has
  a normalized score of 0.6 times its lexicon score plus 0.4 times its model score. For
  a computed result the lexicon score is the answer of the lexicon scorer, and the model
  score is the converted answer of the learned model, or 0 when that model raised. The
  weights are written into \<open>normalize_scores\<close>; no argument of the call reaches them.
\<close>

theorem normalized_score_weighted:
  assumes "reachable s" and "analyze_text e s text src symb pub_date = (s', Some r)"
  shows "normalized_score r = 0.6 * vader_score r + 0.4 * bert_score r
         \<and> (snd (get_cached_sentiment e s src text) = None \<longrightarrow>
              vader e text = Inr (vader_score r)
              \<and> bert_score r = (case bert e (clean_and_truncate_text text 100) of
                                  Inl err \<Rightarrow> 0 | Inr b \<Rightarrow> convert_bert_label_to_score b))"
proof (cases "get_cached_sentiment e s src text")
  case (Pair s1 c)
  show ?thesis
  proof (cases c)
    case None
    obtain v where v: "vader e text = Inr v"
      using analyze_text_vader_fails[of e s src "text" s1 _ symb pub_date] Pair None assms(2)
      by (cases "vader e text") auto
    have "r = fresh_result e text src symb pub_date v"
      using analyze_text_miss[of e s src "text" s1 v symb pub_date] Pair None v assms(2) by simp
    then show ?thesis
      using v by (simp add: fresh_result_def fresh_bert_score_def normalize_scores_def)
  next
    case (Some cached)
    then have r: "r = cached"
      using Pair assms(2) by (simp add: analyze_text_def)
    obtain row where "row \<in> set (sentiment_cache s)" and "cached = result_of_row row"
      using Pair Some
      by (auto simp: get_cached_sentiment_def find_Some_iff in_set_conv_nth split: option.splits)
    then show ?thesis
      using reachable_law[OF assms(1)] r Pair Some by (simp add: result_of_row_def)
  qed
qed

theorem normalized_score_weighted_witness:
  "reachable initial_state
   \<and> map_option normalized_score (snd first_call) = Some 0.66
   \<and> map_option vader_score (snd first_call) = Some 0.5
   \<and> map_option bert_score (snd first_call) = Some 0.9
   \<and> reachable (fst first_call)
   \<and> map_option normalized_score (snd second_call) = Some 0.66"
proof -
  have a: "reachable initial_state" by (rule reachable_initial)
  obtain s1 r1 where c: "analyze_text scoring_env initial_state headline ''feed'' ''GC=F'' None = (s1, Some r1)"
    using first_call_value by (simp add: first_call_def)
  have b: "reachable s1" using a c by (rule reachable_analyze)
  obtain s2 r2 where d: "analyze_text scoring_env s1 headline ''feed'' ''CL=F'' (Some 5) = (s2, Some r2)"
    using second_call_value c by (simp add: second_call_def first_call_def)
  have v: "vader_score r1 = 0.5" "bert_score r1 = 0.9" "vader_score r2 = 0.5" "bert_score r2 = 0.9"
    using c d first_call_value second_call_value
    by (auto simp: first_call_def second_call_def)
  from normalized_score_weighted[OF a c] normalized_score_weighted[OF b d]
  show ?thesis
    using a b c d v by (simp add: first_call_def second_call_def)
qed

text \<open>
  C8. When the learned-model scorer raises (the cache was missed and the lexicon scorer
  had answered), the call still returns a result: the error is logged, the model score is
  0, and the normalized score is 0.6 times the lexicon score.
\<close>

theorem bert_failure_absorbed:
  assumes "snd (get_cached_sentiment e s src text) = None"
    and "vader e text = Inr v"
    and "bert e (clean_and_truncate_text text 100) = Inl err"
  shows "\<exists>s' r. analyze_text e s text src symb pub_date = (s', Some r)
           \<and> vader_score r = v \<and> bert_score r = 0 \<and> normalized_score r = 0.6 * v
           \<and> Error_logged err (''BERT analysis for text from '' @ src) \<in> set (trace s')"
proof (cases "get_cached_sentiment e s src text")
  case (Pair s1 c)
  with assms(1) have g: "get_cached_sentiment e s src text = (s1, None)" by simp
  show ?thesis
    using g assms(2,3)
    by (cases "db_write_error e")
      (simp_all add: analyze_text_def Let_def normalize_scores_def cache_sentiment_result_def
        log_error_def)
qed

theorem bert_failure_absorbed_witness:
  "snd (get_cached_sentiment failing_bert_env initial_state ''feed'' headline) = None
   \<and> vader failing_bert_env headline = Inr 0.5
   \<and> bert failing_bert_env (clean_and_truncate_text headline 100) = Inl ''model failure''
   \<and> map_option bert_score (snd failed_call) = Some 0
   \<and> map_option normalized_score (snd failed_call) = Some 0.3
   \<and> Error_logged ''model failure'' ''BERT analysis for text from feed'' \<in> set (trace (fst failed_call))"
proof -
  have a: "snd (get_cached_sentiment failing_bert_env initial_state ''feed'' headline) = None"
    by (simp add: get_cached_sentiment_def failing_bert_env_def scoring_env_def initial_state_def)
  have b: "vader failing_bert_env headline = Inr 0.5"
    by (simp add: failing_bert_env_def scoring_env_def)
  have c: "bert failing_bert_env (clean_and_truncate_text headline 100) = Inl ''model failure''"
    by (simp add: failing_bert_env_def)
  from bert_failure_absorbed[OF a b c, of "''GC=F''" None]
  show ?thesis
    using a b c by (auto simp: failed_call_def)
qed

section \<open>The trend generator's answers\<close>

text \<open>
  C5. The direction is 1 exactly for the strict chain short > medium > long, -1 exactly
  for the strict chain short < medium < long, and 0 in every other case; no other value
  occurs.
\<close>

theorem determine_direction_chain:
  "(determine_direction short medium long = 1) = (short > medium \<and> medium > long)
   \<and> (determine_direction short medium long = - 1) = (short < medium \<and> medium < long)
   \<and> (determine_direction short medium long = 0)
       = (\<not> (short > medium \<and> medium > long) \<and> \<not> (short < medium \<and> medium < long))
   \<and> determine_direction short medium long \<in> {- 1, 0, 1}"
  by (auto simp: determine_direction_def)

text \<open>
  C6. The strength is the divergence between the three horizons, scaled by 10 and capped
  at 1, and it always lies between 0 and 1.
\<close>

theorem calculate_trend_strength_bounded:
  "calculate_trend_strength short medium long
     = min (10 * (\<bar>short - medium\<bar> + \<bar>medium - long\<bar>)) 1
   \<and> 0 \<le> calculate_trend_strength short medium long
   \<and> calculate_trend_strength short medium long \<le> 1"
  by (simp add: calculate_trend_strength_def Let_def mult.commute)

lemma frame_one_bin:
  "resample_frame small_generator
     [result_at 0 0.1, result_at 200000000 0.3, result_at 100 0.7] = [Some (11 / 30)]"
  by (simp add: resample_frame_def small_generator_def result_at_def resample_width_def
      resample_mean_def bin_of_def mean_def)

text \<open>
  C7. With fewer results than the largest window, \<open>generate_trend_signals\<close> logs a warning
  and answers \<open>None\<close>; this test stands before the \<open>try\<close> and nothing in it can raise. With
  fewer bins than the largest window after resampling, the answer is \<open>None\<close> as well.
\<close>

theorem generate_trend_signals_insufficient:
  "(int (length sentiment_data) < max_window (window_sizes g)
      \<longrightarrow> generate_trend_signals g clock sentiment_data
            = ([Warning_logged ''Insufficient data for trend analysis''], None))
   \<and> (int (length (resample_frame g sentiment_data)) < max_window (window_sizes g)
      \<longrightarrow> snd (generate_trend_signals g clock sentiment_data) = None)"
  by (simp add: generate_trend_signals_def Let_def)

theorem generate_trend_signals_insufficient_witness:
  "int (length [result_at 0 0.1, result_at 100 0.7]) < max_window (window_sizes small_generator)
   \<and> generate_trend_signals small_generator 0 [result_at 0 0.1, result_at 100 0.7]
       = ([Warning_logged ''Insufficient data for trend analysis''], None)
   \<and> \<not> int (length [result_at 0 0.1, result_at 200000000 0.3, result_at 100 0.7])
           < max_window (window_sizes small_generator)
   \<and> int (length (resample_frame small_generator
                     [result_at 0 0.1, result_at 200000000 0.3, result_at 100 0.7]))
       < max_window (window_sizes small_generator)
   \<and> snd (generate_trend_signals small_generator 0
             [result_at 0 0.1, result_at 200000000 0.3, result_at 100 0.7]) = None"
proof -
  have m: "max_window (window_sizes small_generator) = 3"
    by (simp add: max_window_def small_generator_def)
  show ?thesis
    using generate_trend_signals_insufficient
            [of "[result_at 0 0.1, result_at 100 0.7]" small_generator 0]
          generate_trend_signals_insufficient
            [of "[result_at 0 0.1, result_at 200000000 0.3, result_at 100 0.7]"
                small_generator 0]
    by (simp add: m frame_one_bin)
qed

section \<open>The signal generator's answers\<close>

text \<open>
  C3. A trend signal always gives a trading signal. Its confidence is the smaller of the
  magnitude of the short-term trend and the trend strength. Below the confidence
  threshold the signal is HOLD; otherwise it is the basic signal; so a basic HOLD is
  never turned into BUY or SELL.
\<close>

theorem generate_trading_signal_gate:
  "\<exists>sg. generate_trading_signal th clock symb (Some ts) current_price = Some sg
      \<and> confidence sg = min \<bar>short_term_trend ts\<bar> (trend_strength ts)
      \<and> (confidence sg < confidence_threshold th \<longrightarrow> signal sg = ''HOLD'')
      \<and> (\<not> confidence sg < confidence_threshold th \<longrightarrow> signal sg = basic_signal th ts)
      \<and> (basic_signal th ts = ''HOLD'' \<longrightarrow> signal sg = ''HOLD'')"
  by (simp add: generate_trading_signal_def Let_def)

theorem generate_trading_signal_gate_witness:
  "basic_signal default_thresholds (trend_of 0.9 0.01) = ''BUY''
   \<and> signal (the (generate_trading_signal default_thresholds 0 ''GC=F''
                    (Some (trend_of 0.9 0.01)) 1)) = ''HOLD''
   \<and> confidence (the (generate_trading_signal default_thresholds 0 ''GC=F''
                        (Some (trend_of 0.9 0.01)) 1)) = 0.01
   \<and> signal (the (generate_trading_signal default_thresholds 0 ''GC=F''
                    (Some (trend_of 0.8 0.9)) 1)) = ''BUY''
   \<and> signal (the (generate_trading_signal default_thresholds 0 ''GC=F''
                    (Some (trend_of 0.2 0.9)) 1)) = ''HOLD''"
proof -
  have a: "confidence_threshold default_thresholds = 0.7" "buy default_thresholds = 0.5"
      "sell default_thresholds = - 0.5"
    by (simp_all add: default_thresholds_def)
  have b: "short_term_trend (trend_of x y) = x" "trend_strength (trend_of x y) = y" for x y
    by (simp_all add: trend_of_def)
  show ?thesis
    using generate_trading_signal_gate[of default_thresholds 0 "''GC=F''" "trend_of 0.9 0.01" 1]
      generate_trading_signal_gate[of default_thresholds 0 "''GC=F''" "trend_of 0.8 0.9" 1]
      generate_trading_signal_gate[of default_thresholds 0 "''GC=F''" "trend_of 0.2 0.9" 1]
    by (auto simp: a b basic_signal_def)
qed

text \<open>
  C4, as the claim states it, fails for thresholds with buy below sell. With buy = -0.5
  and sell = 0.5, a short-term trend of 0 is below the sell threshold, yet the basic
  signal is not SELL (it is BUY, the first branch); and a short-term trend equal to the
  buy threshold does not give HOLD (it gives SELL).
\<close>

theorem basic_signal_sell_counterexample:
  "short_term_trend (trend_of 0 1) < sell inverted_thresholds
   \<and> basic_signal inverted_thresholds (trend_of 0 1) \<noteq> ''SELL''
   \<and> short_term_trend (trend_of (- 0.5) 1) = buy inverted_thresholds
   \<and> basic_signal inverted_thresholds (trend_of (- 0.5) 1) \<noteq> ''HOLD''"
  by (simp add: basic_signal_def inverted_thresholds_def trend_of_def)

text \<open>
  C4, amended. The basic signal is BUY exactly when the short-term trend is above the
  buy threshold, SELL exactly when it is below the sell threshold and not above the buy
  threshold, and HOLD otherwise. Whenever the sell threshold is not above the buy
  threshold, as with the defaults, SELL is exactly a trend below the sell threshold, and
  a trend equal to the buy threshold gives HOLD.
\<close>

theorem basic_signal_cases:
  "(basic_signal th ts = ''BUY'') = (short_term_trend ts > buy th)
   \<and> (basic_signal th ts = ''SELL'')
       = (short_term_trend ts < sell th \<and> \<not> short_term_trend ts > buy th)
   \<and> (basic_signal th ts = ''HOLD'')
       = (\<not> short_term_trend ts > buy th \<and> \<not> short_term_trend ts < sell th)
   \<and> (sell th \<le> buy th \<longrightarrow>
        (basic_signal th ts = ''SELL'') = (short_term_trend ts < sell th)
        \<and> (short_term_trend ts = buy th \<longrightarrow> basic_signal th ts = ''HOLD''))"
  by (auto simp: basic_signal_def)

theorem basic_signal_cases_witness:
  "sell default_thresholds \<le> buy default_thresholds
   \<and> short_term_trend (trend_of 0.5 0.4) = buy default_thresholds
   \<and> basic_signal default_thresholds (trend_of 0.5 0.4) = ''HOLD''
   \<and> basic_signal default_thresholds (trend_of 0.6 0.4) = ''BUY''
   \<and> basic_signal default_thresholds (trend_of (- 0.6) 0.4) = ''SELL''"
proof -
  have a: "buy default_thresholds = 0.5" "sell default_thresholds = - 0.5"
    by (simp_all add: default_thresholds_def)
  have b: "short_term_trend (trend_of x y) = x" for x y
    by (simp add: trend_of_def)
  show ?thesis
    using basic_signal_cases[of default_thresholds "trend_of 0.5 0.4"]
      basic_signal_cases[of default_thresholds "trend_of 0.6 0.4"]
      basic_signal_cases[of default_thresholds "trend_of (- 0.6) 0.4"]
    by (simp add: a b)
qed

end
